theory Spec2Isabelle
  imports Main "HOL-Library.Sublist"
begin

section \<open>Python values, exceptions and results\<close>

text \<open>
  The program is a Flask application (\<^verbatim>\<open>app.py\<close>) that talks to an identity provider
  and to the Microsoft Graph REST interface.  Python values that cross a function
  boundary are JSON-shaped; JSON numbers with a fraction are left out of \<open>pyval\<close>.
  A \<open>PDict\<close> lists the items of a dict in insertion order.
\<close>

datatype pyval =
    PNone
  | PBool bool
  | PInt int
  | PStr string
  | PList "pyval list"
  | PDict "(string \<times> pyval) list"

text \<open>
  Exceptions are values.  All of them are subclasses of Python's \<^verbatim>\<open>Exception\<close>:
  the ones the interpreter raises in this program (\<open>UnboundLocalError\<close> carries the
  variable, \<open>KeyError\<close> the key, \<open>AttributeError\<close> the type and the attribute), and
  \<open>ExternalError\<close> for whatever a library (requests, msal, the JSON decoder) raises,
  with its class name and its \<^verbatim>\<open>str(e)\<close>.
\<close>

datatype py_exception =
    UnboundLocalError string
  | KeyError string
  | AttributeError string string
  | ExternalError string string

datatype 'a py_result = Returned 'a | Raised py_exception

fun exc_str :: "py_exception \<Rightarrow> string" where
  "exc_str (UnboundLocalError v) =
     ''cannot access local variable '' @ [CHR 0x27] @ v @ [CHR 0x27] @
     '' where it is not associated with a value''"
| "exc_str (KeyError k) = [CHR 0x27] @ k @ [CHR 0x27]"
| "exc_str (AttributeError t a) =
     [CHR 0x27] @ t @ [CHR 0x27] @ '' object has no attribute '' @ [CHR 0x27] @ a @ [CHR 0x27]"
| "exc_str (ExternalError c m) = m"

text \<open>Truth value of an object, as \<^verbatim>\<open>not x\<close> and \<^verbatim>\<open>filter(None, ...)\<close> test it.\<close>

fun truthy :: "pyval \<Rightarrow> bool" where
  "truthy PNone = False"
| "truthy (PBool b) = b"
| "truthy (PInt n) = (n \<noteq> 0)"
| "truthy (PStr s) = (s \<noteq> [])"
| "truthy (PList vs) = (vs \<noteq> [])"
| "truthy (PDict kvs) = (kvs \<noteq> [])"

text \<open>\<^verbatim>\<open>v == k\<close> for an int literal \<open>k\<close>: a bool compares as 0 or 1.\<close>

fun py_eq_int :: "pyval \<Rightarrow> int \<Rightarrow> bool" where
  "py_eq_int (PInt n) k = (n = k)"
| "py_eq_int (PBool b) k = ((if b then 1 else 0) = k)"
| "py_eq_int PNone k = False"
| "py_eq_int (PStr s) k = False"
| "py_eq_int (PList vs) k = False"
| "py_eq_int (PDict kvs) k = False"

fun type_name :: "pyval \<Rightarrow> string" where
  "type_name PNone = ''NoneType''"
| "type_name (PBool b) = ''bool''"
| "type_name (PInt n) = ''int''"
| "type_name (PStr s) = ''str''"
| "type_name (PList vs) = ''list''"
| "type_name (PDict kvs) = ''dict''"

text \<open>\<^verbatim>\<open>data.get(key)\<close>: only a dict has the method; a missing key gives \<open>None\<close>.\<close>

fun py_get :: "pyval \<Rightarrow> string \<Rightarrow> pyval py_result" where
  "py_get (PDict kvs) k = Returned (case map_of kvs k of None \<Rightarrow> PNone | Some v \<Rightarrow> v)"
| "py_get v k = Raised (AttributeError (type_name v) ''get'')"

section \<open>String operations of the Python standard library\<close>

text \<open>
  \<^verbatim>\<open>s.replace(old, new)\<close>: scans from the left and replaces every non-overlapping
  occurrence of \<open>old\<close>.  The program calls it with a non-empty \<open>old\<close> only; with an
  empty \<open>old\<close> this model leaves the string as it is.
\<close>

function py_replace :: "string \<Rightarrow> string \<Rightarrow> string \<Rightarrow> string" where
  "py_replace [] old new = []"
| "py_replace (c # cs) old new =
     (if old \<noteq> [] \<and> prefix old (c # cs)
      then new @ py_replace (drop (length old) (c # cs)) old new
      else c # py_replace cs old new)"
  by pat_completeness auto
termination
  by (relation "measure (\<lambda>(s, old, new). length s)") auto

text \<open>\<^verbatim>\<open>s.strip(c)\<close> for a one-character argument.\<close>

definition py_strip :: "char \<Rightarrow> string \<Rightarrow> string" where
  "py_strip c s = rev (dropWhile (\<lambda>x. x = c) (rev (dropWhile (\<lambda>x. x = c) s)))"

text \<open>\<^verbatim>\<open>s.split(c)\<close> for a one-character separator: one more piece than separators.\<close>

fun py_split :: "char \<Rightarrow> string \<Rightarrow> string list" where
  "py_split c [] = [[]]"
| "py_split c (x # xs) =
     (if x = c then [] # py_split c xs
      else (x # hd (py_split c xs)) # tl (py_split c xs))"

text \<open>\<^verbatim>\<open>s.rsplit(c, 1)\<close>: at most one split, at the last separator.\<close>

fun py_rsplit1 :: "char \<Rightarrow> string \<Rightarrow> string list" where
  "py_rsplit1 c s =
     (if c \<in> set s
      then [rev (tl (dropWhile (\<lambda>x. x \<noteq> c) (rev s))), rev (takeWhile (\<lambda>x. x \<noteq> c) (rev s))]
      else [s])"

text \<open>\<^verbatim>\<open>sep.join(xs)\<close>.\<close>

fun py_join :: "string \<Rightarrow> string list \<Rightarrow> string" where
  "py_join sep [] = []"
| "py_join sep [x] = x"
| "py_join sep (x # y # ys) = x @ sep @ py_join sep (y # ys)"

text \<open>\<^verbatim>\<open>str(n)\<close> for an int, as an f-string renders a status code.\<close>

function str_nat :: "nat \<Rightarrow> string" where
  "str_nat n =
     (if n < 10 then [''0123456789'' ! n]
      else str_nat (n div 10) @ [''0123456789'' ! (n mod 10)])"
  by pat_completeness auto
termination
  by (relation "measure (\<lambda>n. n)") auto

definition str_int :: "int \<Rightarrow> string" where
  "str_int i = (if i < 0 then CHR ''-'' # str_nat (nat (- i)) else str_nat (nat i))"

section \<open>Path normalizer\<close>

text \<open>
  \<^verbatim>\<open>
  def clean_sharepoint_path(path):
      path = path.replace(':/content', '')
      path = path.strip('/')
      return '/'.join(filter(None, path.split('/')))
  \<close>
\<close>

definition clean_sharepoint_path :: "string \<Rightarrow> string" where
  "clean_sharepoint_path path =
     (let path1 = py_replace path '':/content'' '''';
          path2 = py_strip CHR ''/'' path1
      in py_join ''/'' (filter (\<lambda>s. s \<noteq> []) (py_split CHR ''/'' path2)))"

section \<open>The outside world: identity provider and storage provider\<close>

text \<open>
  A response of the HTTP client: its status code, its body as text, and what
  \<^verbatim>\<open>response.json()\<close> gives, which is the decoder's exception for a body that is
  not JSON.
\<close>

record response =
  status_code :: int
  resp_text :: string
  json :: "py_exception + pyval"

type_synonym headers = "(string \<times> string) list"

text \<open>The three kinds of request the program sends: URL, headers, and the payload.\<close>

datatype request =
    GET string headers
  | POST string headers pyval
  | PUT string headers string

text \<open>
  The process-wide configuration and the two collaborators.  The identity
  provider is given the authority URL, the client id and the client secret; it
  raises, or returns a token response of which the program reads the key
  \<^verbatim>\<open>access_token\<close> only (\<open>None\<close>: the key is missing).  The storage provider may answer
  a request in the light of all requests sent before it; the HTTP client raises or
  returns a response.
\<close>

record env =
  SP_CLIENT_ID :: string
  SP_CLIENT_SECRET :: string
  SP_TENANT_ID :: string
  SP_SITE_ID :: string
  acquire_token_for_client :: "string \<Rightarrow> string \<Rightarrow> string \<Rightarrow> py_exception + string option"
  http :: "request list \<Rightarrow> request \<Rightarrow> py_exception + response"

text \<open>
  What a call leaves behind: the requests sent to the storage provider, oldest
  first, and the calls of \<^verbatim>\<open>print\<close>, each as the list of its arguments.
\<close>

record effects =
  requests :: "request list"
  stdout :: "pyval list list"

definition send :: "env \<Rightarrow> effects \<Rightarrow> request \<Rightarrow> (py_exception + response) \<times> effects" where
  "send e fx rq = (http e (requests fx) rq, fx\<lparr>requests := requests fx @ [rq]\<rparr>)"

definition print :: "pyval list \<Rightarrow> effects \<Rightarrow> effects" where
  "print args fx = fx\<lparr>stdout := stdout fx @ [args]\<rparr>"

text \<open>\<^verbatim>\<open>d[k] = v\<close> on a dict kept in insertion order.\<close>

fun dict_set :: "('k \<times> 'v) list \<Rightarrow> 'k \<Rightarrow> 'v \<Rightarrow> ('k \<times> 'v) list" where
  "dict_set [] k v = [(k, v)]"
| "dict_set ((k', v') # kvs) k v =
     (if k' = k then (k, v) # kvs else (k', v') # dict_set kvs k v)"

definition graph_sites :: "env \<Rightarrow> string" where
  "graph_sites e = ''https://graph.microsoft.com/v1.0/sites/'' @ SP_SITE_ID e"

section \<open>Credential provider\<close>

text \<open>
  \<^verbatim>\<open>
  def fetch_header():
      authority_url = f"https://login.microsoftonline.com/{SP_TENANT_ID}"
      client_app = ConfidentialClientApplication(SP_CLIENT_ID, authority=authority_url,
                                                 client_credential=SP_CLIENT_SECRET)
      token_response = client_app.acquire_token_for_client(scopes=[...])
      return {'Authorization': f'Bearer {token_response["access_token"]}'}
  \<close>
\<close>

definition fetch_header :: "env \<Rightarrow> headers py_result" where
  "fetch_header e =
     (let authority_url = ''https://login.microsoftonline.com/'' @ SP_TENANT_ID e
      in case acquire_token_for_client e authority_url (SP_CLIENT_ID e) (SP_CLIENT_SECRET e) of
           Inl x \<Rightarrow> Raised x
         | Inr None \<Rightarrow> Raised (KeyError ''access_token'')
         | Inr (Some token) \<Rightarrow> Returned [(''Authorization'', ''Bearer '' @ token)])"

section \<open>Folder resolver\<close>

text \<open>
  The local variables of \<^verbatim>\<open>create_folder_by_path\<close> that the loop assigns.
  \<open>create_url\<close> and \<open>part\<close> are unbound (\<open>None\<close>) until their first assignment.
\<close>

record locals =
  current_path :: string
  create_url :: "string option"
  part :: "string option"
  header :: headers

definition folder_data :: "string \<Rightarrow> pyval" where
  "folder_data name =
     PDict [(''name'', PStr name), (''folder'', PDict []),
            (''@microsoft.graph.conflictBehavior'', PStr ''rename'')]"

text \<open>
  The statement after the loop:
  \<^verbatim>\<open>return create_url.replace(":/children", f"/{part}:/children")\<close>.
  Reading an unbound local raises; \<open>create_url\<close> is read first.
\<close>

definition folder_return :: "locals \<Rightarrow> pyval py_result" where
  "folder_return st =
     (case create_url st of
        None \<Rightarrow> Raised (UnboundLocalError ''create_url'')
      | Some url \<Rightarrow>
          (case part st of
             None \<Rightarrow> Raised (UnboundLocalError ''part'')
           | Some p \<Rightarrow> Returned (PStr (py_replace url '':/children'' (''/'' @ p @ '':/children'')))))"

text \<open>
  The loop, followed by the return statement:
  \<^verbatim>\<open>
  for part in parts:
      if not part:
          continue
      check_url = f"https://graph.microsoft.com/v1.0/sites/{SP_SITE_ID}/{current_path}/{part}"
      check_response = requests.get(check_url, headers=header)
      if check_response.status_code in [200, 201]:
          print(f"Folder '{part}' exists.")
          current_path += f"/{part}"
      else:
          create_url = f"https://graph.microsoft.com/v1.0/sites/{SP_SITE_ID}/{current_path}:/children"
          header['Content-Type'] = 'application/json'
          folder_data = {"name": part, "folder": {},
                         "@microsoft.graph.conflictBehavior": "rename"}
          create_response = requests.post(create_url, headers=header, json=folder_data)
          if create_response.status_code in [200, 201]:
              print(f"Folder '{part}' created.")
              current_path += f"/{part}"
          else:
              print(f"Error creating folder '{part}':", create_response.json())
              return -1
  return create_url.replace(":/children", f"/{part}:/children")
  \<close>
  An exception of the HTTP client leaves the function; so does
  \<^verbatim>\<open>create_response.json()\<close> in the branch that reports a failed creation, when the
  body is not JSON.  The headers are one dict shared by all requests of the call, so
  the content type set for a creation stays on the lookups that follow it.
\<close>

fun folder_loop :: "env \<Rightarrow> string list \<Rightarrow> locals \<Rightarrow> effects \<Rightarrow> pyval py_result \<times> effects" where
  "folder_loop e [] st fx = (folder_return st, fx)"
| "folder_loop e (p # ps) st fx =
     (if p = [] then folder_loop e ps (st\<lparr>part := Some p\<rparr>) fx
      else
        (case send e fx (GET (graph_sites e @ ''/'' @ current_path st @ ''/'' @ p) (header st)) of
           (Inl x, fx1) \<Rightarrow> (Raised x, fx1)
         | (Inr check_response, fx1) \<Rightarrow>
             if status_code check_response \<in> {200, 201}
             then folder_loop e ps
                    (st\<lparr>part := Some p, current_path := current_path st @ ''/'' @ p\<rparr>)
                    (print [PStr (''Folder '' @ [CHR 0x27] @ p @ [CHR 0x27] @ '' exists.'')] fx1)
             else
               (case send e fx1
                       (POST (graph_sites e @ ''/'' @ current_path st @ '':/children'')
                          (dict_set (header st) ''Content-Type'' ''application/json'')
                          (folder_data p)) of
                  (Inl x, fx2) \<Rightarrow> (Raised x, fx2)
                | (Inr create_response, fx2) \<Rightarrow>
                    if status_code create_response \<in> {200, 201}
                    then folder_loop e ps
                           (st\<lparr>part := Some p,
                               create_url := Some (graph_sites e @ ''/'' @ current_path st @ '':/children''),
                               header := dict_set (header st) ''Content-Type'' ''application/json'',
                               current_path := current_path st @ ''/'' @ p\<rparr>)
                           (print [PStr (''Folder '' @ [CHR 0x27] @ p @ [CHR 0x27] @ '' created.'')] fx2)
                    else
                      (case json create_response of
                         Inl x \<Rightarrow> (Raised x, fx2)
                       | Inr body \<Rightarrow>
                           (Returned (PInt (- 1)),
                            print [PStr (''Error creating folder '' @ [CHR 0x27] @ p @ [CHR 0x27] @ '':''), body]
                              fx2)))))"

definition create_folder_by_path :: "env \<Rightarrow> string \<Rightarrow> effects \<Rightarrow> pyval py_result \<times> effects" where
  "create_folder_by_path e path fx =
     (case fetch_header e of
        Raised x \<Rightarrow> (Raised x, fx)
      | Returned h \<Rightarrow>
          folder_loop e (py_split CHR ''/'' path)
            \<lparr>current_path = ''drive/root:'', create_url = None, part = None, header = h\<rparr> fx)"

section \<open>File transfer\<close>

text \<open>
  The body of the \<^verbatim>\<open>try\<close> block of \<^verbatim>\<open>fetch_file(path, filename)\<close>:
  \<^verbatim>\<open>
  header = fetch_header()
  path = clean_sharepoint_path(path)
  file_path = f"https://graph.microsoft.com/v1.0/sites/{SP_SITE_ID}/drive/root:/{path}/{filename}"
  response = requests.get(file_path, headers=header)
  if response.status_code == 404:
      print(f"File not found: {path}/{filename}")
      return -1
  elif response.status_code == 401:
      print("Authentication failed. Token might be expired.")
      return -1
  elif response.status_code == 403:
      print("Permission denied to access file.")
      return -1
  elif response.status_code not in [200, 201]:
      print(f"Unexpected error {response.status_code}: {response.text}")
      return -1
  data = response.json()
  download_url = data.get('@microsoft.graph.downloadUrl')
  if not download_url:
      print("Download URL not found in response")
      return -1
  return download_url
  \<close>
\<close>

definition fetch_file_try :: "env \<Rightarrow> string \<Rightarrow> string \<Rightarrow> effects \<Rightarrow> pyval py_result \<times> effects" where
  "fetch_file_try e path filename fx =
     (case fetch_header e of
        Raised x \<Rightarrow> (Raised x, fx)
      | Returned h \<Rightarrow>
          (let path1 = clean_sharepoint_path path;
               file_path = graph_sites e @ ''/drive/root:/'' @ path1 @ ''/'' @ filename
           in case send e fx (GET file_path h) of
                (Inl x, fx1) \<Rightarrow> (Raised x, fx1)
              | (Inr r, fx1) \<Rightarrow>
                  if status_code r = 404
                  then (Returned (PInt (- 1)),
                        print [PStr (''File not found: '' @ path1 @ ''/'' @ filename)] fx1)
                  else if status_code r = 401
                  then (Returned (PInt (- 1)),
                        print [PStr ''Authentication failed. Token might be expired.''] fx1)
                  else if status_code r = 403
                  then (Returned (PInt (- 1)),
                        print [PStr ''Permission denied to access file.''] fx1)
                  else if status_code r \<notin> {200, 201}
                  then (Returned (PInt (- 1)),
                        print [PStr (''Unexpected error '' @ str_int (status_code r) @ '': '' @ resp_text r)] fx1)
                  else
                    (case json r of
                       Inl x \<Rightarrow> (Raised x, fx1)
                     | Inr data \<Rightarrow>
                         (case py_get data ''@microsoft.graph.downloadUrl'' of
                            Raised x \<Rightarrow> (Raised x, fx1)
                          | Returned download_url \<Rightarrow>
                              if \<not> truthy download_url
                              then (Returned (PInt (- 1)),
                                    print [PStr ''Download URL not found in response''] fx1)
                              else (Returned download_url, fx1)))))"

text \<open>\<^verbatim>\<open>except Exception as e: print(f"Error fetching file: {str(e)}"); return -1\<close>\<close>

definition fetch_file :: "env \<Rightarrow> string \<Rightarrow> string \<Rightarrow> effects \<Rightarrow> pyval py_result \<times> effects" where
  "fetch_file e path filename fx =
     (case fetch_file_try e path filename fx of
        (Raised x, fx1) \<Rightarrow>
          (Returned (PInt (- 1)), print [PStr (''Error fetching file: '' @ exc_str x)] fx1)
      | (Returned v, fx1) \<Rightarrow> (Returned v, fx1))"

text \<open>
  \<^verbatim>\<open>
  def upload_file(path, filename, file_contents):
      header = fetch_header()
      root_path = f"https://graph.microsoft.com/v1.0/sites/{SP_SITE_ID}/drive/root:"
      file_path = f"{root_path}/{path}/{filename}:/content"
      header['Content-Type'] = 'text/plain'
      response = requests.put(file_path, headers=header, data=file_contents)
      if response.status_code in [200, 201]:
          print(f"Successfully uploaded {filename}")
          return file_path
      print(f"Failed to upload {filename}")
      return -1
  \<close>
  \<open>upload_url\<close> is the value of \<^verbatim>\<open>file_path\<close>.
\<close>

definition upload_url :: "env \<Rightarrow> string \<Rightarrow> string \<Rightarrow> string" where
  "upload_url e path filename =
     (let root_path = graph_sites e @ ''/drive/root:''
      in root_path @ ''/'' @ path @ ''/'' @ filename @ '':/content'')"

definition upload_file :: "env \<Rightarrow> string \<Rightarrow> string \<Rightarrow> string \<Rightarrow> effects \<Rightarrow> pyval py_result \<times> effects" where
  "upload_file e path filename file_contents fx =
     (case fetch_header e of
        Raised x \<Rightarrow> (Raised x, fx)
      | Returned h \<Rightarrow>
          (let file_path = upload_url e path filename
           in case send e fx (PUT file_path (dict_set h ''Content-Type'' ''text/plain'') file_contents) of
                (Inl x, fx1) \<Rightarrow> (Raised x, fx1)
              | (Inr r, fx1) \<Rightarrow>
                  if status_code r \<in> {200, 201}
                  then (Returned (PStr file_path),
                        print [PStr (''Successfully uploaded '' @ filename)] fx1)
                  else (Returned (PInt (- 1)),
                        print [PStr (''Failed to upload '' @ filename)] fx1)))"

section \<open>Request handler of \<^verbatim>\<open>GET /fetch/<filepath>\<close>\<close>

text \<open>
  \<^verbatim>\<open>
  def fetch_file_endpoint(filepath):
      try:
          path_parts = filepath.rsplit('/', 1)
          filename = path_parts[-1]
          path = path_parts[0] if len(path_parts) > 1 else ''
          path = clean_sharepoint_path(path)
          download_url = fetch_file(path, filename)
          if download_url == -1:
              return jsonify({'error': 'Failed to fetch file'}), 404
          return jsonify({'download_url': download_url, 'filename': filename,
                          'path': path}), 200
      except Exception as e:
          return jsonify({'error': str(e)}), 500
  \<close>
  The handler returns the JSON body and the HTTP status.  \<^verbatim>\<open>rsplit\<close> gives one or two
  pieces, so \<^verbatim>\<open>path_parts[-1]\<close> and \<^verbatim>\<open>path_parts[0]\<close> are its last and its first.
\<close>

definition fetch_file_endpoint :: "env \<Rightarrow> string \<Rightarrow> effects \<Rightarrow> (pyval \<times> int) \<times> effects" where
  "fetch_file_endpoint e filepath fx =
     (let path_parts = py_rsplit1 CHR ''/'' filepath;
          filename = last path_parts;
          path0 = (if length path_parts > 1 then hd path_parts else []);
          path = clean_sharepoint_path path0
      in case fetch_file e path filename fx of
           (Raised x, fx1) \<Rightarrow> ((PDict [(''error'', PStr (exc_str x))], 500), fx1)
         | (Returned download_url, fx1) \<Rightarrow>
             if py_eq_int download_url (- 1)
             then ((PDict [(''error'', PStr ''Failed to fetch file'')], 404), fx1)
             else ((PDict [(''download_url'', download_url),
                           (''filename'', PStr filename),
                           (''path'', PStr path)], 200), fx1))"

section \<open>Hypotheses of the folder walk, and concrete providers\<close>

text \<open>
  \<open>lookups_exist e h cur tr parts\<close>: walking \<open>parts\<close> from the folder \<open>cur\<close> with the
  headers \<open>h\<close>, after the requests \<open>tr\<close>, the provider answers the existence lookup of
  every non-empty segment with status 200 or 201.
\<close>

fun lookups_exist :: "env \<Rightarrow> headers \<Rightarrow> string \<Rightarrow> request list \<Rightarrow> string list \<Rightarrow> bool" where
  "lookups_exist e h cur tr [] = True"
| "lookups_exist e h cur tr (p # ps) =
     (if p = [] then lookups_exist e h cur tr ps
      else
        (case http e tr (GET (graph_sites e @ ''/'' @ cur @ ''/'' @ p) h) of
           Inl x \<Rightarrow> False
         | Inr r \<Rightarrow>
             status_code r \<in> {200, 201} \<and>
             lookups_exist e h (cur @ ''/'' @ p)
               (tr @ [GET (graph_sites e @ ''/'' @ cur @ ''/'' @ p) h]) ps))"

text \<open>A site \<open>S\<close> whose identity provider hands out the token \<open>T\<close>, in front of a given storage provider.\<close>

definition stub_env :: "(request list \<Rightarrow> request \<Rightarrow> py_exception + response) \<Rightarrow> env" where
  "stub_env f =
     \<lparr>SP_CLIENT_ID = ''client'', SP_CLIENT_SECRET = ''secret'', SP_TENANT_ID = ''tenant'',
      SP_SITE_ID = ''S'', acquire_token_for_client = (\<lambda>a c s. Inr (Some ''T'')), http = f\<rparr>"

definition reply :: "int \<Rightarrow> pyval \<Rightarrow> py_exception + response" where
  "reply st body = Inr \<lparr>status_code = st, resp_text = [], json = Inr body\<rparr>"

definition fx0 :: effects where
  "fx0 = \<lparr>requests = [], stdout = []\<rparr>"

text \<open>Every folder exists: each lookup is answered 200.\<close>

definition all_exist :: "request list \<Rightarrow> request \<Rightarrow> py_exception + response" where
  "all_exist tr rq = reply 200 (PDict [])"

text \<open>The top folder \<open>x\<close> is reported missing and is created; every other lookup is answered 200.\<close>

definition x_missing :: "request list \<Rightarrow> request \<Rightarrow> py_exception + response" where
  "x_missing tr rq =
     (case rq of
        GET u h \<Rightarrow>
          reply (if u = ''https://graph.microsoft.com/v1.0/sites/S/drive/root:/x'' then 404 else 200)
            (PDict [])
      | POST u h d \<Rightarrow> reply 201 (PDict [])
      | PUT u h d \<Rightarrow> reply 201 (PDict []))"

text \<open>Only \<open>x\<close> exists; a creation is answered with the given status.\<close>

definition only_x :: "int \<Rightarrow> request list \<Rightarrow> request \<Rightarrow> py_exception + response" where
  "only_x created tr rq =
     (case rq of
        GET u h \<Rightarrow>
          reply (if u = ''https://graph.microsoft.com/v1.0/sites/S/drive/root:/x'' then 200 else 404)
            (PDict [])
      | POST u h d \<Rightarrow> reply created (PDict [])
      | PUT u h d \<Rightarrow> reply created (PDict []))"

text \<open>A provider that answers every request with one status and one JSON body.\<close>

definition answering :: "int \<Rightarrow> pyval \<Rightarrow> request list \<Rightarrow> request \<Rightarrow> py_exception + response" where
  "answering st body tr rq = reply st body"

text \<open>
  The normalizer as section 4.1 of the specification words it, for comparison with
  \<open>clean_sharepoint_path\<close>: strip a trailing content-reference suffix if present,
  strip leading and trailing separators, split on the separator, discard empty
  segments, rejoin with a single separator.
\<close>

definition normalize_spec :: "string \<Rightarrow> string" where
  "normalize_spec raw =
     (let s1 = (if suffix '':/content'' raw then take (length raw - length '':/content'') raw else raw);
          s2 = py_strip CHR ''/'' s1
      in py_join ''/'' (filter (\<lambda>s. s \<noteq> []) (py_split CHR ''/'' s2)))"

section \<open>Facts about the string operations\<close>

declare str_nat.simps [simp del]

lemma unbordered:
  assumes "p \<notin> set ps" and "p # ps = q @ us" and "q \<noteq> []" and "prefix us (p # ps)"
  shows "us = []"
proof (rule ccontr)
  assume "us \<noteq> []"
  then obtain u us' where us: "us = u # us'" by (cases us) auto
  with assms(4) have "u = p" by simp
  from assms(3) obtain q' where q: "q = p # q'" using assms(2) by (cases q) auto
  with assms(2) have "ps = q' @ us" by simp
  with us \<open>u = p\<close> have "p \<in> set ps" by simp
  with assms(1) show False by simp
qed

lemma prefix_append_unbordered:
  assumes "p \<notin> set ps" and "prefix (p # ps) (q @ p # ps)" and "q \<noteq> []"
  shows "prefix (p # ps) q"
proof -
  from assms(2) have "prefix (p # ps) q \<or> (\<exists>us. p # ps = q @ us \<and> prefix us (p # ps))"
    by (simp only: prefix_append)
  then show ?thesis
  proof (elim disjE exE conjE)
    assume "prefix (p # ps) q"
    then show ?thesis .
  next
    fix us
    assume eq: "p # ps = q @ us" and pre: "prefix us (p # ps)"
    have "us = []" by (rule unbordered [OF assms(1) eq assms(3) pre])
    with eq have "q = p # ps" by simp
    then show ?thesis by simp
  qed
qed

lemma py_replace_hit:
  "old \<noteq> [] \<Longrightarrow> prefix old s \<Longrightarrow>
   py_replace s old new = new @ py_replace (drop (length old) s) old new"
  by (cases s) auto

lemma py_replace_miss:
  "\<not> prefix old (c # cs) \<Longrightarrow> py_replace (c # cs) old new = c # py_replace cs old new"
  by simp

lemma py_replace_append_pat:
  assumes "p \<notin> set ps"
  shows "py_replace (q @ p # ps) (p # ps) new = py_replace q (p # ps) new @ new"
proof (induction q "p # ps" new rule: py_replace.induct)
  case (1 new)
  have "py_replace (p # ps) (p # ps) new = new @ py_replace (drop (length (p # ps)) (p # ps)) (p # ps) new"
    by (rule py_replace_hit) auto
  then show ?case by simp
next
  case (2 c cs new)
  show ?case
  proof (cases "prefix (p # ps) (c # cs)")
    case True
    then have len: "length (p # ps) \<le> length (c # cs)" by (rule prefix_length_le)
    from True have pre: "prefix (p # ps) ((c # cs) @ p # ps)" by (rule prefix_prefix)
    have "py_replace ((c # cs) @ p # ps) (p # ps) new
          = new @ py_replace (drop (length (p # ps)) ((c # cs) @ p # ps)) (p # ps) new"
      using pre by (intro py_replace_hit) auto
    also have "drop (length (p # ps)) ((c # cs) @ p # ps) = drop (length (p # ps)) (c # cs) @ p # ps"
      using len by simp
    also have "py_replace (drop (length (p # ps)) (c # cs) @ p # ps) (p # ps) new
          = py_replace (drop (length (p # ps)) (c # cs)) (p # ps) new @ new"
      using 2(1) True by blast
    also have "new @ (py_replace (drop (length (p # ps)) (c # cs)) (p # ps) new @ new)
          = py_replace (c # cs) (p # ps) new @ new"
      using py_replace_hit [of "p # ps" "c # cs" new] True by simp
    finally show ?thesis .
  next
    case False
    then have np: "\<not> prefix (p # ps) (c # (cs @ p # ps))"
      using prefix_append_unbordered [OF assms, of "c # cs"] by auto
    have "py_replace ((c # cs) @ p # ps) (p # ps) new = c # py_replace (cs @ p # ps) (p # ps) new"
      using py_replace_miss [OF np] by simp
    also have "\<dots> = c # (py_replace cs (p # ps) new @ new)"
      using 2(2) False by blast
    also have "\<dots> = py_replace (c # cs) (p # ps) new @ new"
      using py_replace_miss [OF False] by simp
    finally show ?thesis .
  qed
qed

lemma py_split_not_Nil: "py_split c s \<noteq> []"
  by (induction s) auto

lemma py_split_pieces: "x \<in> set (py_split c s) \<Longrightarrow> c \<notin> set x"
proof (induction s arbitrary: x)
  case Nil then show ?case by simp
next
  case (Cons a s)
  obtain y ys where sp: "py_split c s = y # ys" using py_split_not_Nil by (cases "py_split c s") auto
  with Cons show ?case by (auto split: if_splits)
qed

lemma py_split_join:
  "segs \<noteq> [] \<Longrightarrow> (\<And>x. x \<in> set segs \<Longrightarrow> c \<notin> set x) \<Longrightarrow> py_split c (py_join [c] segs) = segs"
proof (induction "[c]" segs rule: py_join.induct)
  case 1 then show ?case by simp
next
  case (2 x)
  then have "c \<notin> set x" by simp
  then have "py_split c x = [x]" by (induction x) auto
  then show ?case by simp
next
  case (3 x y ys)
  then have cx: "c \<notin> set x" and ih: "py_split c (py_join [c] (y # ys)) = y # ys" by auto
  from cx have "py_split c (x @ c # r) = x # py_split c r" for r
    by (induction x) auto
  with ih show ?case by simp
qed

lemma hd_py_join: "segs \<noteq> [] \<Longrightarrow> hd segs \<noteq> [] \<Longrightarrow> hd (py_join sep segs) = hd (hd segs)"
  by (induction sep segs rule: py_join.induct) auto

lemma py_join_eq_Nil: "[] \<notin> set segs \<Longrightarrow> (py_join sep segs = []) = (segs = [])"
  by (induction sep segs rule: py_join.induct) auto

lemma py_join_not_Nil: "segs \<noteq> [] \<Longrightarrow> last segs \<noteq> [] \<Longrightarrow> py_join sep segs \<noteq> []"
  by (induction sep segs rule: py_join.induct) simp_all

lemma last_py_join: "segs \<noteq> [] \<Longrightarrow> last segs \<noteq> [] \<Longrightarrow> last (py_join sep segs) = last (last segs)"
proof (induction sep segs rule: py_join.induct)
  case (3 sep x y ys)
  then have "py_join sep (y # ys) \<noteq> []"
    using py_join_not_Nil [of "y # ys" sep] by simp
  with 3 show ?case by simp
qed simp_all

lemma prefix_single: "prefix [c] s = (s \<noteq> [] \<and> hd s = c)"
  by (cases s) auto

lemma suffix_single: "suffix [c] s = (s \<noteq> [] \<and> last s = c)"
proof (cases s rule: rev_cases)
  case Nil
  then show ?thesis by simp
next
  case (snoc ys y)
  then show ?thesis by (simp add: suffix_def)
qed

lemma py_join_segments_hd:
  assumes "[] \<notin> set segs" and "\<And>x. x \<in> set segs \<Longrightarrow> c \<notin> set x"
  shows "\<not> prefix [c] (py_join sep segs)"
proof (cases segs)
  case Nil
  then show ?thesis by simp
next
  case (Cons x xs)
  with assms have x: "x \<noteq> []" "c \<notin> set x" by auto
  then have "hd x \<noteq> c" by (cases x) auto
  moreover have "hd (py_join sep segs) = hd x"
    using hd_py_join [of segs sep] Cons x by simp
  ultimately show ?thesis by (simp add: prefix_single)
qed

lemma py_join_segments_last:
  assumes "[] \<notin> set segs" and "\<And>x. x \<in> set segs \<Longrightarrow> c \<notin> set x"
  shows "\<not> suffix [c] (py_join sep segs)"
proof (cases segs rule: rev_cases)
  case Nil
  then show ?thesis by simp
next
  case (snoc xs x)
  with assms have x: "x \<noteq> []" "c \<notin> set x" by auto
  then have "last x \<noteq> c" by (cases x rule: rev_cases) auto
  moreover have "last (py_join sep segs) = last x"
    using last_py_join [of segs sep] snoc x by simp
  ultimately show ?thesis by (simp add: suffix_single)
qed

text \<open>The segments that \<open>clean_sharepoint_path\<close> joins.\<close>

lemma clean_segments:
  "clean_sharepoint_path p =
     py_join ''/'' (filter (\<lambda>s. s \<noteq> [])
       (py_split CHR ''/'' (py_strip CHR ''/'' (py_replace p '':/content'' ''''))))"
  by (simp add: clean_sharepoint_path_def)

lemma clean_no_leading: "\<not> prefix ''/'' (clean_sharepoint_path p)"
  unfolding clean_segments
  by (rule py_join_segments_hd) (auto dest: py_split_pieces)

lemma clean_no_trailing: "\<not> suffix ''/'' (clean_sharepoint_path p)"
  unfolding clean_segments
  by (rule py_join_segments_last) (auto dest: py_split_pieces)

lemma clean_split:
  "clean_sharepoint_path p = [] \<or> [] \<notin> set (py_split CHR ''/'' (clean_sharepoint_path p))"
proof (cases "filter (\<lambda>s. s \<noteq> [])
       (py_split CHR ''/'' (py_strip CHR ''/'' (py_replace p '':/content'' ''''))) = []")
  case True
  then show ?thesis unfolding clean_segments by simp
next
  case False
  have "py_split CHR ''/'' (py_join ''/'' (filter (\<lambda>s. s \<noteq> [])
       (py_split CHR ''/'' (py_strip CHR ''/'' (py_replace p '':/content'' ''''))))) =
       filter (\<lambda>s. s \<noteq> [])
       (py_split CHR ''/'' (py_strip CHR ''/'' (py_replace p '':/content'' '''')))"
    using False by (intro py_split_join) (auto dest: py_split_pieces)
  then show ?thesis unfolding clean_segments by simp
qed

lemma clean_strips_content_suffix:
  "clean_sharepoint_path (p @ '':/content'') = clean_sharepoint_path p"
proof -
  have "py_replace (p @ '':/content'') '':/content'' '''' = py_replace p '':/content'' '''' @ ''''"
    by (rule py_replace_append_pat) simp
  then show ?thesis by (simp add: clean_sharepoint_path_def)
qed

text \<open>
  When normalizing once is enough: a path whose normal form holds no \<^verbatim>\<open>:/content\<close> is
  a fixed point of \<open>clean_sharepoint_path\<close>.
\<close>

lemma py_replace_absent: "\<not> sublist old s \<Longrightarrow> py_replace s old new = s"
proof (induction s old new rule: py_replace.induct)
  case (1 old new)
  then show ?case by simp
next
  case (2 c cs old new)
  from 2(3) have np: "\<not> prefix old (c # cs)" and ns: "\<not> sublist old cs"
    by (auto simp: sublist_Cons_right)
  from 2(2) np ns have "py_replace cs old new = cs" by simp
  with np show ?case by (simp add: py_replace_miss)
qed

lemma py_strip_noop: "\<not> prefix [c] s \<Longrightarrow> \<not> suffix [c] s \<Longrightarrow> py_strip c s = s"
proof (cases s)
  case Nil
  then show ?thesis by (simp add: py_strip_def)
next
  case (Cons x xs)
  assume a: "\<not> prefix [c] s" "\<not> suffix [c] s"
  with Cons have "x \<noteq> c" by simp
  then have d: "dropWhile (\<lambda>y. y = c) s = s" using Cons by simp
  from a(2) Cons have "last s \<noteq> c" by (simp add: suffix_single)
  then have "hd (rev s) \<noteq> c" by (simp add: hd_rev)
  then have "dropWhile (\<lambda>y. y = c) (rev s) = rev s"
    by (cases "rev s") auto
  with d show ?thesis by (simp add: py_strip_def)
qed

lemma py_join_split_segments:
  assumes "[] \<notin> set segs" and "\<And>x. x \<in> set segs \<Longrightarrow> c \<notin> set x"
  shows "py_join [c] (filter (\<lambda>s. s \<noteq> []) (py_split c (py_join [c] segs))) = py_join [c] segs"
proof (cases "segs = []")
  case True
  then show ?thesis by simp
next
  case False
  then have "py_split c (py_join [c] segs) = segs"
    using assms(2) by (rule py_split_join)
  moreover have "filter (\<lambda>s. s \<noteq> []) segs = segs"
    using assms(1) by (induction segs) auto
  ultimately show ?thesis by simp
qed

lemma clean_fixed_point:
  assumes "\<not> sublist '':/content'' (clean_sharepoint_path p)"
  shows "clean_sharepoint_path (clean_sharepoint_path p) = clean_sharepoint_path p"
proof -
  let ?segs = "filter (\<lambda>s. s \<noteq> [])
       (py_split CHR ''/'' (py_strip CHR ''/'' (py_replace p '':/content'' '''')))"
  have R: "clean_sharepoint_path p = py_join ''/'' ?segs" by (rule clean_segments)
  have 1: "py_replace (clean_sharepoint_path p) '':/content'' '''' = clean_sharepoint_path p"
    using assms by (rule py_replace_absent)
  have 2: "py_strip CHR ''/'' (clean_sharepoint_path p) = clean_sharepoint_path p"
    using clean_no_leading [of p] clean_no_trailing [of p] by (rule py_strip_noop)
  have 3: "py_join ''/'' (filter (\<lambda>s. s \<noteq> []) (py_split CHR ''/'' (py_join ''/'' ?segs))) =
           py_join ''/'' ?segs"
    by (rule py_join_split_segments) (auto dest: py_split_pieces)
  have "clean_sharepoint_path (clean_sharepoint_path p) =
        py_join ''/'' (filter (\<lambda>s. s \<noteq> []) (py_split CHR ''/'' (clean_sharepoint_path p)))"
    unfolding clean_sharepoint_path_def [of "clean_sharepoint_path p"] Let_def 1 2 ..
  also have "\<dots> = clean_sharepoint_path p"
    unfolding R using 3 .
  finally show ?thesis .
qed

text \<open>Stripping separators at both ends does not change the non-empty segments.\<close>

lemma py_split_snoc_sep: "py_split c (xs @ [c]) = py_split c xs @ [[]]"
proof (induction xs)
  case Nil
  then show ?case by simp
next
  case (Cons x xs)
  obtain y ys where sp: "py_split c xs = y # ys"
    using py_split_not_Nil [of c xs] by (cases "py_split c xs") auto
  with Cons show ?case by simp
qed

lemma segments_dropWhile:
  "filter (\<lambda>s. s \<noteq> []) (py_split c (dropWhile (\<lambda>x. x = c) s)) =
   filter (\<lambda>s. s \<noteq> []) (py_split c s)"
  by (induction s) simp_all

lemma segments_drop_trailing:
  "filter (\<lambda>s. s \<noteq> []) (py_split c (rev (dropWhile (\<lambda>x. x = c) (rev s)))) =
   filter (\<lambda>s. s \<noteq> []) (py_split c s)"
proof (induction s rule: rev_induct)
  case Nil
  then show ?case by simp
next
  case (snoc y ys)
  show ?case
  proof (cases "y = c")
    case True
    with snoc show ?thesis by (simp add: py_split_snoc_sep)
  next
    case False
    then show ?thesis by simp
  qed
qed

lemma segments_strip:
  "filter (\<lambda>s. s \<noteq> []) (py_split c (py_strip c s)) = filter (\<lambda>s. s \<noteq> []) (py_split c s)"
  unfolding py_strip_def
  by (simp only: segments_drop_trailing segments_dropWhile)

lemma clean_joins_segments:
  "clean_sharepoint_path p =
     py_join ''/'' (filter (\<lambda>s. s \<noteq> []) (py_split CHR ''/'' (py_replace p '':/content'' '''')))"
  by (simp only: clean_segments segments_strip)

lemma clean_split_segments:
  "py_split CHR ''/'' (clean_sharepoint_path p) =
     (if filter (\<lambda>s. s \<noteq> []) (py_split CHR ''/'' (py_replace p '':/content'' '''')) = [] then [[]]
      else filter (\<lambda>s. s \<noteq> []) (py_split CHR ''/'' (py_replace p '':/content'' '''')))"
proof (cases "filter (\<lambda>s. s \<noteq> []) (py_split CHR ''/'' (py_replace p '':/content'' '''')) = []")
  case True
  then show ?thesis by (simp add: clean_joins_segments)
next
  case False
  have "py_split CHR ''/'' (py_join ''/''
          (filter (\<lambda>s. s \<noteq> []) (py_split CHR ''/'' (py_replace p '':/content'' '''')))) =
        filter (\<lambda>s. s \<noteq> []) (py_split CHR ''/'' (py_replace p '':/content'' ''''))"
    using False by (intro py_split_join) (auto dest: py_split_pieces)
  with False show ?thesis by (simp add: clean_joins_segments)
qed

lemma normalize_spec_plain:
  "\<not> suffix '':/content'' p \<Longrightarrow>
   normalize_spec p = py_join ''/'' (filter (\<lambda>s. s \<noteq> []) (py_split CHR ''/'' p))"
  by (simp add: normalize_spec_def Let_def segments_strip)

lemma normalize_spec_suffixed:
  "normalize_spec (p @ '':/content'') = py_join ''/'' (filter (\<lambda>s. s \<noteq> []) (py_split CHR ''/'' p))"
proof -
  have "suffix '':/content'' (p @ '':/content'')" by (rule suffixI) simp
  then show ?thesis by (simp add: normalize_spec_def Let_def segments_strip)
qed

lemma clean_agrees_with_spec:
  assumes "\<not> sublist '':/content'' p"
  shows "py_replace p '':/content'' '''' = p"
    and "clean_sharepoint_path p = normalize_spec p"
    and "clean_sharepoint_path (p @ '':/content'') = normalize_spec (p @ '':/content'')"
proof -
  show r: "py_replace p '':/content'' '''' = p"
    using assms by (rule py_replace_absent)
  from assms have "\<not> suffix '':/content'' p" by auto
  then show c: "clean_sharepoint_path p = normalize_spec p"
    by (simp add: normalize_spec_plain clean_joins_segments r)
  have "clean_sharepoint_path (p @ '':/content'') = clean_sharepoint_path p"
    by (rule clean_strips_content_suffix)
  also have "\<dots> = py_join ''/'' (filter (\<lambda>s. s \<noteq> []) (py_split CHR ''/'' p))"
    by (simp add: clean_joins_segments r)
  also have "\<dots> = normalize_spec (p @ '':/content'')"
    by (simp only: normalize_spec_suffixed)
  finally show "clean_sharepoint_path (p @ '':/content'') = normalize_spec (p @ '':/content'')" .
qed

text \<open>
  C8, as amended: \<open>clean_sharepoint_path\<close> is a total function of its argument alone
  (it has no failure value and takes no environment).  It removes every occurrence
  of \<^verbatim>\<open>:/content\<close> found in one pass from the left, not only a trailing one; its
  result is the non-empty segments of what remains, in their order, joined by single
  separators, so it neither starts nor ends with a separator and splits back into
  exactly these segments.  A trailing \<^verbatim>\<open>:/content\<close> is dropped.  On every path in
  which \<^verbatim>\<open>:/content\<close> does not occur, or occurs once at the very end, the result is
  that of the specification's normalizer.  The empty path is mapped to the empty
  path, \<^verbatim>\<open>/a//b/\<close> to \<^verbatim>\<open>a/b\<close> and \<^verbatim>\<open>a/b/:/content\<close> to \<^verbatim>\<open>a/b\<close>.
\<close>

theorem clean_sharepoint_path_segments:
  "clean_sharepoint_path p =
     py_join ''/'' (filter (\<lambda>s. s \<noteq> []) (py_split CHR ''/'' (py_replace p '':/content'' ''''))) \<and>
   py_split CHR ''/'' (clean_sharepoint_path p) =
     (if filter (\<lambda>s. s \<noteq> []) (py_split CHR ''/'' (py_replace p '':/content'' '''')) = [] then [[]]
      else filter (\<lambda>s. s \<noteq> []) (py_split CHR ''/'' (py_replace p '':/content'' ''''))) \<and>
   (\<not> sublist '':/content'' p \<longrightarrow>
      py_replace p '':/content'' '''' = p \<and>
      clean_sharepoint_path p = normalize_spec p \<and>
      clean_sharepoint_path (p @ '':/content'') = normalize_spec (p @ '':/content'')) \<and>
   clean_sharepoint_path (p @ '':/content'') = clean_sharepoint_path p \<and>
   \<not> prefix ''/'' (clean_sharepoint_path p) \<and>
   \<not> suffix ''/'' (clean_sharepoint_path p) \<and>
   (clean_sharepoint_path p = [] \<or> [] \<notin> set (py_split CHR ''/'' (clean_sharepoint_path p))) \<and>
   clean_sharepoint_path '''' = '''' \<and>
   clean_sharepoint_path ''/a//b/'' = ''a/b'' \<and>
   clean_sharepoint_path ''a/b/:/content'' = ''a/b''"
proof -
  have "clean_sharepoint_path '''' = ''''"
    by (simp add: clean_sharepoint_path_def py_strip_def)
  moreover have "clean_sharepoint_path ''/a//b/'' = ''a/b''"
    by (simp add: clean_sharepoint_path_def py_strip_def)
  moreover have "clean_sharepoint_path ''a/b/:/content'' = ''a/b''"
    by (simp add: clean_sharepoint_path_def py_strip_def)
  moreover note clean_joins_segments [of p] clean_split_segments [of p]
    clean_agrees_with_spec [of p]
    clean_strips_content_suffix [of p] clean_no_leading [of p] clean_no_trailing [of p]
    clean_split [of p]
  ultimately show ?thesis by blast
qed

theorem clean_sharepoint_path_segments_witness:
  "\<not> sublist '':/content'' ''/docs//2024/'' \<and>
   clean_sharepoint_path ''/docs//2024/'' = ''docs/2024'' \<and>
   normalize_spec ''/docs//2024/'' = ''docs/2024'' \<and>
   clean_sharepoint_path (''/docs//2024/'' @ '':/content'') = ''docs/2024'' \<and>
   normalize_spec (''/docs//2024/'' @ '':/content'') = ''docs/2024'' \<and>
   py_split CHR ''/'' (clean_sharepoint_path ''/docs//2024/'') = [''docs'', ''2024'']"
proof -
  have n: "\<not> sublist '':/content'' ''/docs//2024/''"
    by (simp add: sublist_code)
  have c: "clean_sharepoint_path ''/docs//2024/'' = ''docs/2024''"
    by (simp add: clean_sharepoint_path_def py_strip_def)
  have t: "clean_sharepoint_path ''/docs//2024/'' = normalize_spec ''/docs//2024/'' \<and>
           clean_sharepoint_path (''/docs//2024/'' @ '':/content'') =
             normalize_spec (''/docs//2024/'' @ '':/content'') \<and>
           clean_sharepoint_path (''/docs//2024/'' @ '':/content'') =
             clean_sharepoint_path ''/docs//2024/''"
    using clean_sharepoint_path_segments [of "''/docs//2024/''"] n by blast
  from t have t1: "clean_sharepoint_path ''/docs//2024/'' = normalize_spec ''/docs//2024/''"
    and t2: "clean_sharepoint_path (''/docs//2024/'' @ '':/content'') =
             normalize_spec (''/docs//2024/'' @ '':/content'')"
    and t3: "clean_sharepoint_path (''/docs//2024/'' @ '':/content'') =
             clean_sharepoint_path ''/docs//2024/''"
    by blast+
  have s1: "normalize_spec ''/docs//2024/'' = ''docs/2024''"
    by (rule trans [OF t1 [symmetric] c])
  have s3: "clean_sharepoint_path (''/docs//2024/'' @ '':/content'') = ''docs/2024''"
    by (rule trans [OF t3 c])
  have s2: "normalize_spec (''/docs//2024/'' @ '':/content'') = ''docs/2024''"
    by (rule trans [OF t2 [symmetric] s3])
  have s4: "py_split CHR ''/'' (clean_sharepoint_path ''/docs//2024/'') = [''docs'', ''2024'']"
    by (simp add: c)
  from n c s1 s3 s2 s4 show ?thesis by (intro conjI)
qed

text \<open>
  C8 as stated fails on \<^verbatim>\<open>a:/content/b\<close>, a path that does not end with the content
  suffix and has no leading, trailing or empty segment: stripping a trailing suffix,
  stripping separators and discarding empty segments leaves it as it is, while the
  code removes the inner \<^verbatim>\<open>:/content\<close> and returns \<^verbatim>\<open>a/b\<close>.
\<close>

theorem clean_sharepoint_path_segments_counterexample:
  "\<not> suffix '':/content'' ''a:/content/b'' \<and>
   normalize_spec ''a:/content/b'' = ''a:/content/b'' \<and>
   clean_sharepoint_path ''a:/content/b'' = ''a/b'' \<and>
   clean_sharepoint_path ''a:/content/b'' \<noteq> normalize_spec ''a:/content/b''"
  by (simp add: clean_sharepoint_path_def normalize_spec_def py_strip_def suffix_to_prefix)

text \<open>
  C7: normalizing twice is not always normalizing once.  The path \<^verbatim>\<open>a://content\<close>
  has a duplicate separator; its normal form \<^verbatim>\<open>a:/content\<close> still ends with the
  content suffix, and normalizing that gives \<^verbatim>\<open>a\<close>.
\<close>

theorem clean_sharepoint_path_not_idempotent:
  "clean_sharepoint_path ''a://content'' = ''a:/content'' \<and>
   clean_sharepoint_path (clean_sharepoint_path ''a://content'') = ''a'' \<and>
   clean_sharepoint_path (clean_sharepoint_path ''a://content'') \<noteq> clean_sharepoint_path ''a://content''"
  by (simp add: clean_sharepoint_path_def py_strip_def)

section \<open>The folder resolver\<close>

lemma requests_print [simp]: "requests (print args fx) = requests fx"
  by (simp add: print_def)

lemma folder_loop_all_exist:
  "lookups_exist e (header st) (current_path st) (requests fx) ps \<Longrightarrow> create_url st = None \<Longrightarrow>
   fst (folder_loop e ps st fx) = Raised (UnboundLocalError ''create_url'')"
proof (induction ps arbitrary: st fx)
  case Nil
  then show ?case by (simp add: folder_return_def)
next
  case (Cons p ps)
  show ?case
  proof (cases "p = []")
    case True
    with Cons.prems have "lookups_exist e (header (st\<lparr>part := Some p\<rparr>))
        (current_path (st\<lparr>part := Some p\<rparr>)) (requests fx) ps"
      by simp
    from Cons.IH [OF this] Cons.prems(2) True show ?thesis by simp
  next
    case False
    let ?rq = "GET (graph_sites e @ ''/'' @ current_path st @ ''/'' @ p) (header st)"
    from Cons.prems(1) False obtain r where
      r: "http e (requests fx) ?rq = Inr r" "status_code r \<in> {200, 201}"
      and rest: "lookups_exist e (header st) (current_path st @ ''/'' @ p) (requests fx @ [?rq]) ps"
      by (auto split: sum.splits)
    let ?st = "st\<lparr>part := Some p, current_path := current_path st @ ''/'' @ p\<rparr>"
    let ?fx = "print [PStr (''Folder '' @ [CHR 0x27] @ p @ [CHR 0x27] @ '' exists.'')]
                 (fx\<lparr>requests := requests fx @ [?rq]\<rparr>)"
    have "lookups_exist e (header ?st) (current_path ?st) (requests ?fx) ps"
      using rest by simp
    from Cons.IH [OF this] Cons.prems(2)
    have "fst (folder_loop e ps ?st ?fx) = Raised (UnboundLocalError ''create_url'')"
      by simp
    moreover have "folder_loop e (p # ps) st fx = folder_loop e ps ?st ?fx"
      using False r by (simp add: send_def)
    ultimately show ?thesis by simp
  qed
qed

text \<open>
  C3: when the token is obtained and the provider answers the existence lookup of
  every segment with 200 or 201, \<open>create_folder_by_path\<close> raises
  \<open>UnboundLocalError\<close> for \<open>create_url\<close>: it returns neither a locator nor -1.
\<close>

theorem create_folder_by_path_all_exist_raises:
  assumes "fetch_header e = Returned h"
    and "lookups_exist e h ''drive/root:'' (requests fx) (py_split CHR ''/'' path)"
  shows "fst (create_folder_by_path e path fx) = Raised (UnboundLocalError ''create_url'')"
  using assms by (simp add: create_folder_by_path_def folder_loop_all_exist)

theorem create_folder_by_path_all_exist_raises_witness:
  "fetch_header (stub_env all_exist) = Returned [(''Authorization'', ''Bearer T'')] \<and>
   lookups_exist (stub_env all_exist) [(''Authorization'', ''Bearer T'')] ''drive/root:''
     (requests fx0) (py_split CHR ''/'' ''reports/2024'') \<and>
   fst (create_folder_by_path (stub_env all_exist) ''reports/2024'' fx0) =
     Raised (UnboundLocalError ''create_url'')"
proof -
  have h: "fetch_header (stub_env all_exist) = Returned [(''Authorization'', ''Bearer T'')]"
    by (simp add: fetch_header_def stub_env_def)
  have l: "lookups_exist (stub_env all_exist) [(''Authorization'', ''Bearer T'')] ''drive/root:''
     (requests fx0) (py_split CHR ''/'' ''reports/2024'')"
    by (simp add: stub_env_def all_exist_def reply_def graph_sites_def fx0_def)
  from create_folder_by_path_all_exist_raises [OF h l] h l show ?thesis by simp
qed

text \<open>
  C2: on the empty path the loop sends no request, and the return statement then
  reads \<open>create_url\<close>, which was never assigned: the call raises
  \<open>UnboundLocalError\<close> instead of returning the root handle.
\<close>

theorem create_folder_by_path_empty:
  "create_folder_by_path e '''' fx =
     (case fetch_header e of
        Raised x \<Rightarrow> (Raised x, fx)
      | Returned h \<Rightarrow> (Raised (UnboundLocalError ''create_url''), fx))"
  by (simp add: create_folder_by_path_def folder_return_def split: py_result.splits)

text \<open>
  C1: the returned locator is built from the URL of the last creation request, so it
  names the deepest folder only when the last segment is the one created last.  On
  \<^verbatim>\<open>x/y/z\<close>: with \<open>x\<close>, \<open>y\<close> and \<open>z\<close> all present the call raises; with \<open>x\<close> created
  and \<open>y\<close>, \<open>z\<close> found, the result names \<open>z\<close> directly under the root, not
  \<open>x/y/z\<close>; with \<open>x\<close> found and \<open>y\<close>, \<open>z\<close> created it names \<open>x/y/z\<close>.
\<close>

theorem create_folder_by_path_stale_create_url:
  "fst (create_folder_by_path (stub_env all_exist) ''x/y/z'' fx0) =
     Raised (UnboundLocalError ''create_url'') \<and>
   fst (create_folder_by_path (stub_env x_missing) ''x/y/z'' fx0) =
     Returned (PStr ''https://graph.microsoft.com/v1.0/sites/S/drive/root:/z:/children'') \<and>
   fst (create_folder_by_path (stub_env (only_x 201)) ''x/y/z'' fx0) =
     Returned (PStr ''https://graph.microsoft.com/v1.0/sites/S/drive/root:/x/y/z:/children'')"
  by (simp add: create_folder_by_path_def fetch_header_def stub_env_def all_exist_def x_missing_def
      only_x_def reply_def graph_sites_def fx0_def send_def print_def folder_return_def)

lemma dict_set_twice: "dict_set (dict_set d k v) k v = dict_set d k v"
  by (induction d k v rule: dict_set.induct) auto

text \<open>
  C5, as amended: on \<^verbatim>\<open>x/y/z\<close>, when \<open>x\<close> is found, \<open>y\<close> is not found and its creation
  succeeds, and \<open>z\<close> is not found, the requests sent are exactly: lookup of \<open>x\<close>,
  lookup of \<open>y\<close>, creation of \<open>y\<close> in \<open>x\<close>, lookup of \<open>z\<close>, creation of \<open>z\<close> in \<open>x/y\<close>,
  in this order.  The lookups after the first creation carry the JSON content type
  that the creation added to the shared headers.
\<close>

theorem create_folder_by_path_x_y_z_requests:
  assumes "fetch_header e = Returned h"
    and "http e (requests fx) (GET (graph_sites e @ ''/drive/root:/x'') h) = Inr r1"
    and "status_code r1 \<in> {200, 201}"
    and "http e (requests fx @ [GET (graph_sites e @ ''/drive/root:/x'') h])
           (GET (graph_sites e @ ''/drive/root:/x/y'') h) = Inr r2"
    and "status_code r2 \<notin> {200, 201}"
    and "http e (requests fx @ [GET (graph_sites e @ ''/drive/root:/x'') h,
                               GET (graph_sites e @ ''/drive/root:/x/y'') h])
           (POST (graph_sites e @ ''/drive/root:/x:/children'')
              (dict_set h ''Content-Type'' ''application/json'') (folder_data ''y'')) = Inr r3"
    and "status_code r3 \<in> {200, 201}"
    and "http e (requests fx @ [GET (graph_sites e @ ''/drive/root:/x'') h,
                               GET (graph_sites e @ ''/drive/root:/x/y'') h,
                               POST (graph_sites e @ ''/drive/root:/x:/children'')
                                 (dict_set h ''Content-Type'' ''application/json'') (folder_data ''y'')])
           (GET (graph_sites e @ ''/drive/root:/x/y/z'')
              (dict_set h ''Content-Type'' ''application/json'')) = Inr r4"
    and "status_code r4 \<notin> {200, 201}"
  shows "requests (snd (create_folder_by_path e ''x/y/z'' fx)) =
         requests fx @
           [GET (graph_sites e @ ''/drive/root:/x'') h,
            GET (graph_sites e @ ''/drive/root:/x/y'') h,
            POST (graph_sites e @ ''/drive/root:/x:/children'')
              (dict_set h ''Content-Type'' ''application/json'') (folder_data ''y''),
            GET (graph_sites e @ ''/drive/root:/x/y/z'')
              (dict_set h ''Content-Type'' ''application/json''),
            POST (graph_sites e @ ''/drive/root:/x/y:/children'')
              (dict_set h ''Content-Type'' ''application/json'') (folder_data ''z'')]"
  using assms
  by (simp add: create_folder_by_path_def send_def print_def dict_set_twice
      split: sum.splits)

theorem create_folder_by_path_x_y_z_requests_witness:
  "requests (snd (create_folder_by_path (stub_env (only_x 201)) ''x/y/z'' fx0)) =
     [GET ''https://graph.microsoft.com/v1.0/sites/S/drive/root:/x''
        [(''Authorization'', ''Bearer T'')],
      GET ''https://graph.microsoft.com/v1.0/sites/S/drive/root:/x/y''
        [(''Authorization'', ''Bearer T'')],
      POST ''https://graph.microsoft.com/v1.0/sites/S/drive/root:/x:/children''
        [(''Authorization'', ''Bearer T''), (''Content-Type'', ''application/json'')]
        (folder_data ''y''),
      GET ''https://graph.microsoft.com/v1.0/sites/S/drive/root:/x/y/z''
        [(''Authorization'', ''Bearer T''), (''Content-Type'', ''application/json'')],
      POST ''https://graph.microsoft.com/v1.0/sites/S/drive/root:/x/y:/children''
        [(''Authorization'', ''Bearer T''), (''Content-Type'', ''application/json'')]
        (folder_data ''z'')]"
  using create_folder_by_path_x_y_z_requests
    [of "stub_env (only_x 201)" "[(''Authorization'', ''Bearer T'')]" fx0
        "\<lparr>status_code = 200, resp_text = [], json = Inr (PDict [])\<rparr>"
        "\<lparr>status_code = 404, resp_text = [], json = Inr (PDict [])\<rparr>"
        "\<lparr>status_code = 201, resp_text = [], json = Inr (PDict [])\<rparr>"
        "\<lparr>status_code = 404, resp_text = [], json = Inr (PDict [])\<rparr>"]
  by (simp add: fetch_header_def stub_env_def only_x_def reply_def graph_sites_def fx0_def)

text \<open>
  C5 as stated fails when the creation of \<open>y\<close> is refused: with \<open>x\<close> reported present
  and \<open>y\<close>, \<open>z\<close> reported absent, a provider that answers the creation with 500 sees
  two lookups and one creation, and no request about \<open>z\<close>.
\<close>

theorem create_folder_by_path_x_y_z_counterexample:
  "(\<forall>tr h. only_x 500 tr (GET ''https://graph.microsoft.com/v1.0/sites/S/drive/root:/x'' h) =
      reply 200 (PDict [])) \<and>
   (\<forall>tr h. only_x 500 tr (GET ''https://graph.microsoft.com/v1.0/sites/S/drive/root:/x/y'' h) =
      reply 404 (PDict [])) \<and>
   (\<forall>tr h. only_x 500 tr (GET ''https://graph.microsoft.com/v1.0/sites/S/drive/root:/x/y/z'' h) =
      reply 404 (PDict [])) \<and>
   create_folder_by_path (stub_env (only_x 500)) ''x/y/z'' fx0 =
     (Returned (PInt (- 1)),
      \<lparr>requests =
         [GET ''https://graph.microsoft.com/v1.0/sites/S/drive/root:/x''
            [(''Authorization'', ''Bearer T'')],
          GET ''https://graph.microsoft.com/v1.0/sites/S/drive/root:/x/y''
            [(''Authorization'', ''Bearer T'')],
          POST ''https://graph.microsoft.com/v1.0/sites/S/drive/root:/x:/children''
            [(''Authorization'', ''Bearer T''), (''Content-Type'', ''application/json'')]
            (folder_data ''y'')],
       stdout =
         [[PStr (''Folder '' @ [CHR 0x27] @ ''x'' @ [CHR 0x27] @ '' exists.'')],
          [PStr (''Error creating folder '' @ [CHR 0x27] @ ''y'' @ [CHR 0x27] @ '':''), PDict []]]\<rparr>)"
  by (simp add: create_folder_by_path_def fetch_header_def stub_env_def only_x_def reply_def
      graph_sites_def fx0_def send_def print_def)

section \<open>Upload\<close>

text \<open>
  C6: once the token is obtained and the provider answers the content write,
  \<open>upload_file\<close> has sent exactly one request, a PUT to the locator
  \<^verbatim>\<open><root>/<path>/<filename>:/content\<close>; it returns that locator when the status is 200
  or 201 and the integer -1 otherwise, which is no string.
\<close>

theorem upload_file_returns_locator:
  assumes "fetch_header e = Returned h"
    and "http e (requests fx)
           (PUT (graph_sites e @ ''/drive/root:'' @ ''/'' @ path @ ''/'' @ filename @ '':/content'')
              (dict_set h ''Content-Type'' ''text/plain'') file_contents) = Inr r"
  shows "fst (upload_file e path filename file_contents fx) =
           (if status_code r \<in> {200, 201}
            then Returned (PStr (graph_sites e @ ''/drive/root:'' @ ''/'' @ path @ ''/'' @ filename @ '':/content''))
            else Returned (PInt (- 1))) \<and>
         requests (snd (upload_file e path filename file_contents fx)) =
           requests fx @
             [PUT (graph_sites e @ ''/drive/root:'' @ ''/'' @ path @ ''/'' @ filename @ '':/content'')
                (dict_set h ''Content-Type'' ''text/plain'') file_contents] \<and>
         (\<forall>s. Returned (PInt (- 1)) \<noteq> Returned (PStr s))"
  using assms by (simp add: upload_file_def upload_url_def send_def Let_def)

theorem upload_file_returns_locator_witness:
  "fst (upload_file (stub_env (answering 201 (PDict []))) ''docs'' ''r.txt'' ''hello'' fx0) =
     Returned (PStr ''https://graph.microsoft.com/v1.0/sites/S/drive/root:/docs/r.txt:/content'') \<and>
   fst (upload_file (stub_env (answering 500 (PDict []))) ''docs'' ''r.txt'' ''hello'' fx0) =
     Returned (PInt (- 1))"
  using upload_file_returns_locator
    [of "stub_env (answering 201 (PDict []))" "[(''Authorization'', ''Bearer T'')]" fx0
        "''docs''" "''r.txt''" "''hello''"
        "\<lparr>status_code = 201, resp_text = [], json = Inr (PDict [])\<rparr>"]
    upload_file_returns_locator
    [of "stub_env (answering 500 (PDict []))" "[(''Authorization'', ''Bearer T'')]" fx0
        "''docs''" "''r.txt''" "''hello''"
        "\<lparr>status_code = 500, resp_text = [], json = Inr (PDict [])\<rparr>"]
  by (simp add: fetch_header_def stub_env_def answering_def reply_def graph_sites_def fx0_def)

section \<open>Download resolution\<close>

lemma fetch_file_try_value:
  assumes "fetch_file_try e path filename fx = (Returned v, fx1)"
  shows "v = PInt (- 1) \<or>
         (\<exists>h r kvs.
            fetch_header e = Returned h \<and>
            http e (requests fx)
              (GET (graph_sites e @ ''/drive/root:/'' @ clean_sharepoint_path path @ ''/'' @ filename) h) = Inr r \<and>
            status_code r \<in> {200, 201} \<and>
            json r = Inr (PDict kvs) \<and>
            map_of kvs ''@microsoft.graph.downloadUrl'' = Some v \<and>
            truthy v)"
proof (cases "fetch_header e")
  case (Raised x)
  with assms show ?thesis by (simp add: fetch_file_try_def)
next
  case (Returned h)
  let ?rq = "GET (graph_sites e @ ''/drive/root:/'' @ clean_sharepoint_path path @ ''/'' @ filename) h"
  show ?thesis
  proof (cases "http e (requests fx) ?rq")
    case (Inl x)
    with assms Returned show ?thesis by (simp add: fetch_file_try_def send_def Let_def)
  next
    case (Inr r)
    show ?thesis
    proof (cases "status_code r \<in> {200, 201}")
      case False
      with assms Returned Inr show ?thesis
        by (simp add: fetch_file_try_def send_def Let_def split: if_splits)
    next
      case True
      then have st: "status_code r \<noteq> 404" "status_code r \<noteq> 401" "status_code r \<noteq> 403"
        by auto
      show ?thesis
      proof (cases "json r")
        case (Inl x)
        with assms Returned Inr True st show ?thesis
          by (simp add: fetch_file_try_def send_def Let_def)
      next
        case body: (Inr data)
        show ?thesis
        proof (cases data)
          case (PDict kvs)
          show ?thesis
          proof (cases "map_of kvs ''@microsoft.graph.downloadUrl''")
            case None
            with assms Returned Inr True st body PDict show ?thesis
              by (simp add: fetch_file_try_def send_def Let_def)
          next
            case (Some u)
            with assms Returned Inr True st body PDict show ?thesis
              by (simp add: fetch_file_try_def send_def Let_def split: if_splits)
          qed
        qed (use assms Returned Inr True st body in
              \<open>simp_all add: fetch_file_try_def send_def Let_def\<close>)
      qed
    qed
  qed
qed

text \<open>
  C10, as amended: \<open>fetch_file\<close> always returns and never raises; what it returns is
  -1, or else the truthy value that a 200/201 JSON object holds under
  \<^verbatim>\<open>@microsoft.graph.downloadUrl\<close>, of whatever JSON type the provider put there.
\<close>

theorem fetch_file_total:
  "\<exists>v fx1. fetch_file e path filename fx = (Returned v, fx1) \<and>
     (v = PInt (- 1) \<or>
      (\<exists>h r kvs.
         fetch_header e = Returned h \<and>
         http e (requests fx)
           (GET (graph_sites e @ ''/drive/root:/'' @ clean_sharepoint_path path @ ''/'' @ filename) h) = Inr r \<and>
         status_code r \<in> {200, 201} \<and>
         json r = Inr (PDict kvs) \<and>
         map_of kvs ''@microsoft.graph.downloadUrl'' = Some v \<and>
         truthy v))"
proof (cases "fetch_file_try e path filename fx")
  case (Pair res fx1)
  show ?thesis
  proof (cases res)
    case (Raised x)
    with Pair show ?thesis by (simp add: fetch_file_def)
  next
    case (Returned v)
    with Pair have "fetch_file e path filename fx = (Returned v, fx1)"
      by (simp add: fetch_file_def)
    moreover note fetch_file_try_value [OF Pair [unfolded Returned]]
    ultimately show ?thesis by blast
  qed
qed

text \<open>
  C10 as stated fails: a provider that answers 200 with the JSON object
  \<^verbatim>\<open>{"@microsoft.graph.downloadUrl": 5}\<close> makes \<open>fetch_file\<close> return the integer 5,
  which is neither a string nor -1.
\<close>

theorem fetch_file_total_counterexample:
  "fst (fetch_file
         (stub_env (answering 200 (PDict [(''@microsoft.graph.downloadUrl'', PInt 5)])))
         ''a/b'' ''report.pdf'' fx0) = Returned (PInt 5) \<and>
   PInt 5 \<noteq> PInt (- 1) \<and> (\<forall>s. PInt 5 \<noteq> PStr s)"
  by (simp add: fetch_file_def fetch_file_try_def fetch_header_def stub_env_def answering_def
      reply_def send_def Let_def)

text \<open>
  C4, as amended: once the token is obtained and the provider answers the metadata
  lookup, every failure returns the same value -1 and differs from the others only
  in the line it prints: 404, 401 and 403 have their own lines, every other status
  outside 200 and 201 (other 2xx statuses included) prints the unexpected-error
  line with the status and the body text, and a 200/201 JSON object whose download
  URL is missing or falsy prints the missing-URL line.  The five lines are pairwise
  different.
\<close>

theorem fetch_file_failure_reports:
  assumes "fetch_header e = Returned h"
    and "http e (requests fx)
           (GET (graph_sites e @ ''/drive/root:/'' @ clean_sharepoint_path path @ ''/'' @ filename) h) = Inr r"
  shows "(status_code r = 404 \<longrightarrow>
            fst (fetch_file e path filename fx) = Returned (PInt (- 1)) \<and>
            stdout (snd (fetch_file e path filename fx)) =
              stdout fx @ [[PStr (''File not found: '' @ clean_sharepoint_path path @ ''/'' @ filename)]]) \<and>
         (status_code r = 401 \<longrightarrow>
            fst (fetch_file e path filename fx) = Returned (PInt (- 1)) \<and>
            stdout (snd (fetch_file e path filename fx)) =
              stdout fx @ [[PStr ''Authentication failed. Token might be expired.'']]) \<and>
         (status_code r = 403 \<longrightarrow>
            fst (fetch_file e path filename fx) = Returned (PInt (- 1)) \<and>
            stdout (snd (fetch_file e path filename fx)) =
              stdout fx @ [[PStr ''Permission denied to access file.'']]) \<and>
         (status_code r \<notin> {404, 401, 403, 200, 201} \<longrightarrow>
            fst (fetch_file e path filename fx) = Returned (PInt (- 1)) \<and>
            stdout (snd (fetch_file e path filename fx)) =
              stdout fx @ [[PStr (''Unexpected error '' @ str_int (status_code r) @ '': '' @ resp_text r)]]) \<and>
         (status_code r \<in> {200, 201} \<and> json r = Inr (PDict kvs) \<and>
          \<not> truthy (case map_of kvs ''@microsoft.graph.downloadUrl'' of None \<Rightarrow> PNone | Some v \<Rightarrow> v) \<longrightarrow>
            fst (fetch_file e path filename fx) = Returned (PInt (- 1)) \<and>
            stdout (snd (fetch_file e path filename fx)) =
              stdout fx @ [[PStr ''Download URL not found in response'']]) \<and>
         distinct [''File not found: '' @ a,
                   ''Authentication failed. Token might be expired.'',
                   ''Permission denied to access file.'',
                   ''Unexpected error '' @ b,
                   ''Download URL not found in response'']"
  using assms
  by (simp add: fetch_file_def fetch_file_try_def send_def print_def Let_def)

theorem fetch_file_failure_reports_witness:
  "stdout (snd (fetch_file (stub_env (answering 404 (PDict []))) ''a/b'' ''report.pdf'' fx0)) =
     [[PStr ''File not found: a/b/report.pdf'']] \<and>
   fst (fetch_file (stub_env (answering 404 (PDict []))) ''a/b'' ''report.pdf'' fx0) =
     Returned (PInt (- 1)) \<and>
   stdout (snd (fetch_file (stub_env (answering 200 (PDict []))) ''a/b'' ''report.pdf'' fx0)) =
     [[PStr ''Download URL not found in response'']] \<and>
   fst (fetch_file (stub_env (answering 200 (PDict []))) ''a/b'' ''report.pdf'' fx0) =
     Returned (PInt (- 1))"
proof -
  have c: "clean_sharepoint_path ''a/b'' = ''a/b''"
    by (simp add: clean_sharepoint_path_def py_strip_def)
  have h: "fetch_header (stub_env f) = Returned [(''Authorization'', ''Bearer T'')]" for f
    by (simp add: fetch_header_def stub_env_def)
  have r: "http (stub_env (answering st body)) tr rq =
             Inr \<lparr>status_code = st, resp_text = [], json = Inr body\<rparr>" for st body tr rq
    by (simp add: stub_env_def answering_def reply_def)
  from fetch_file_failure_reports
         [where e = "stub_env (answering 404 (PDict []))" and h = "[(''Authorization'', ''Bearer T'')]"
            and fx = fx0 and path = "''a/b''" and filename = "''report.pdf''" and kvs = "[]"
            and r = "\<lparr>status_code = 404, resp_text = [], json = Inr (PDict [])\<rparr>"]
       fetch_file_failure_reports
         [where e = "stub_env (answering 200 (PDict []))" and h = "[(''Authorization'', ''Bearer T'')]"
            and fx = fx0 and path = "''a/b''" and filename = "''report.pdf''" and kvs = "[]"
            and r = "\<lparr>status_code = 200, resp_text = [], json = Inr (PDict [])\<rparr>"]
  show ?thesis by (simp add: c h r fx0_def)
qed

text \<open>
  C4 as stated fails at status 204, a 2xx status: with a JSON object that lacks the
  download URL the report is the unexpected-error line, not the missing-URL line.
\<close>

theorem fetch_file_failure_reports_counterexample:
  "(204::int) div 100 = 2 \<and>
   fetch_file (stub_env (answering 204 (PDict []))) ''a/b'' ''report.pdf'' fx0 =
     (Returned (PInt (- 1)),
      \<lparr>requests =
         [GET ''https://graph.microsoft.com/v1.0/sites/S/drive/root:/a/b/report.pdf''
            [(''Authorization'', ''Bearer T'')]],
       stdout = [[PStr ''Unexpected error 204: '']]\<rparr>) \<and>
   ''Unexpected error 204: '' \<noteq> ''Download URL not found in response''"
  by (simp add: fetch_file_def fetch_file_try_def fetch_header_def stub_env_def answering_def
      reply_def send_def print_def Let_def graph_sites_def fx0_def
      clean_sharepoint_path_def py_strip_def str_int_def str_nat.simps)

theorem fetch_file_total_witness:
  "\<exists>fx1. fetch_file
           (stub_env (answering 200 (PDict [(''@microsoft.graph.downloadUrl'', PStr ''https://dl/1'')])))
           ''a/b'' ''report.pdf'' fx0 = (Returned (PStr ''https://dl/1''), fx1)"
proof -
  have "map_of kvs ''@microsoft.graph.downloadUrl'' = Some v \<Longrightarrow>
        PDict kvs = PDict [(''@microsoft.graph.downloadUrl'', PStr ''https://dl/1'')] \<Longrightarrow>
        v = PStr ''https://dl/1''" for kvs v
    by simp
  moreover have "fst (fetch_file
           (stub_env (answering 200 (PDict [(''@microsoft.graph.downloadUrl'', PStr ''https://dl/1'')])))
           ''a/b'' ''report.pdf'' fx0) \<noteq> Returned (PInt (- 1))"
    by (simp add: fetch_file_def fetch_file_try_def fetch_header_def stub_env_def answering_def
        reply_def send_def Let_def)
  ultimately show ?thesis
    using fetch_file_total
      [of "stub_env (answering 200 (PDict [(''@microsoft.graph.downloadUrl'', PStr ''https://dl/1'')]))"
          "''a/b''" "''report.pdf''" fx0]
    by (auto simp: stub_env_def answering_def reply_def)
qed

section \<open>The fetch endpoint\<close>

text \<open>
  C9: for a request \<^verbatim>\<open>GET /fetch/<filepath>\<close>, once the token is obtained and the
  provider answers the metadata lookup: a 404 from the provider makes the handler
  respond 404 with the body \<^verbatim>\<open>{"error": "Failed to fetch file"}\<close>; a 200/201 with a
  download URL (a truthy value other than -1) makes it respond 200 with a body of
  the keys \<^verbatim>\<open>download_url\<close>, \<^verbatim>\<open>filename\<close> and \<^verbatim>\<open>path\<close>.
\<close>

theorem fetch_file_endpoint_responses:
  fixes filepath :: string
  defines "path_parts \<equiv> py_rsplit1 CHR ''/'' filepath"
  defines "filename \<equiv> last path_parts"
  defines "path \<equiv> clean_sharepoint_path (if length path_parts > 1 then hd path_parts else [])"
  assumes "fetch_header e = Returned h"
    and "http e (requests fx)
           (GET (graph_sites e @ ''/drive/root:/'' @ clean_sharepoint_path path @ ''/'' @ filename) h) = Inr r"
  shows "(status_code r = 404 \<longrightarrow>
            fst (fetch_file_endpoint e filepath fx) =
              (PDict [(''error'', PStr ''Failed to fetch file'')], 404)) \<and>
         (status_code r \<in> {200, 201} \<and> json r = Inr (PDict kvs) \<and>
          map_of kvs ''@microsoft.graph.downloadUrl'' = Some v \<and> truthy v \<and> \<not> py_eq_int v (- 1) \<longrightarrow>
            fst (fetch_file_endpoint e filepath fx) =
              (PDict [(''download_url'', v), (''filename'', PStr filename), (''path'', PStr path)], 200))"
  using assms(4,5) unfolding assms(1-3)
  by (auto simp: fetch_file_endpoint_def fetch_file_def fetch_file_try_def send_def Let_def)

theorem fetch_file_endpoint_responses_witness:
  "fst (fetch_file_endpoint (stub_env (answering 404 (PDict []))) ''a/b/report.pdf'' fx0) =
     (PDict [(''error'', PStr ''Failed to fetch file'')], 404) \<and>
   fst (fetch_file_endpoint
          (stub_env (answering 200 (PDict [(''@microsoft.graph.downloadUrl'', PStr ''https://dl/1'')])))
          ''a/b/report.pdf'' fx0) =
     (PDict [(''download_url'', PStr ''https://dl/1''), (''filename'', PStr ''report.pdf''),
             (''path'', PStr ''a/b'')], 200)"
proof -
  have h: "fetch_header (stub_env f) = Returned [(''Authorization'', ''Bearer T'')]" for f
    by (simp add: fetch_header_def stub_env_def)
  have r: "http (stub_env (answering st body)) tr rq =
             Inr \<lparr>status_code = st, resp_text = [], json = Inr body\<rparr>" for st body tr rq
    by (simp add: stub_env_def answering_def reply_def)
  have c: "clean_sharepoint_path ''a/b'' = ''a/b''"
    by (simp add: clean_sharepoint_path_def py_strip_def)
  from fetch_file_endpoint_responses
         [where e = "stub_env (answering 404 (PDict []))" and h = "[(''Authorization'', ''Bearer T'')]"
            and fx = fx0 and filepath = "''a/b/report.pdf''"
            and r = "\<lparr>status_code = 404, resp_text = [], json = Inr (PDict [])\<rparr>"]
       fetch_file_endpoint_responses
         [where e = "stub_env (answering 200 (PDict [(''@microsoft.graph.downloadUrl'', PStr ''https://dl/1'')]))"
            and h = "[(''Authorization'', ''Bearer T'')]"
            and fx = fx0 and filepath = "''a/b/report.pdf''"
            and kvs = "[(''@microsoft.graph.downloadUrl'', PStr ''https://dl/1'')]"
            and v = "PStr ''https://dl/1''"
            and r = "\<lparr>status_code = 200, resp_text = [],
                      json = Inr (PDict [(''@microsoft.graph.downloadUrl'', PStr ''https://dl/1'')])\<rparr>"]
  show ?thesis by (simp add: h r c)
qed

end
